theory Spec2Isabelle
  imports Complex_Main "HOL-Library.AList"
begin

section \<open>Numbers, dates and the trading configuration\<close>

text \<open>
  The TypeScript sources compute with the single JavaScript \<open>number\<close> type. It is
  embedded as \<^typ>\<open>real\<close>: every arithmetic expression of the source is written
  with the same operators in the same order, read over the reals. Where the source
  divides, the divisor is named in the theorems that depend on the quotient, since
  HOL's \<open>x / 0 = 0\<close> is not what JavaScript computes there.

  A \<open>Date\<close> is embedded by the local calendar fields the sources read from it.
  \<open>new Date()\<close> becomes an argument \<open>now\<close> of the function that calls it.
\<close>

record jsdate =
  year :: int
  month :: nat
  dayOfMonth :: nat
  msOfDay :: nat

text \<open>\<open>Date.prototype.getDate\<close>: the day of the month, 1 to 31.\<close>

definition getDate :: "jsdate \<Rightarrow> nat" where
  "getDate d = dayOfMonth d"

text \<open>The calendar date of a \<open>Date\<close>, and the order of calendar dates.\<close>

definition calendarDate :: "jsdate \<Rightarrow> int \<times> nat \<times> nat" where
  "calendarDate d = (year d, month d, dayOfMonth d)"

definition laterDate :: "jsdate \<Rightarrow> jsdate \<Rightarrow> bool" where
  "laterDate a b \<longleftrightarrow>
     year b < year a \<or>
     (year a = year b \<and> (month b < month a \<or>
       (month a = month b \<and> dayOfMonth b < dayOfMonth a)))"

text \<open>
  \<open>config.trading\<close> of \<open>src/config/index.ts\<close>, the fields the risk manager and the
  optimizer read. The values come from the process environment; the record holds
  them after parsing.
\<close>

record trading_config =
  maxConcurrentPositions :: int
  positionSizePercent :: real
  maxLeverage :: real
  maxPositionSize :: real
  maxDailyLoss :: real
  allowedSymbols :: "string list"

text \<open>The defaults of \<open>config.trading\<close>, used when the environment sets nothing.\<close>

definition defaultConfig :: trading_config where
  "defaultConfig = \<lparr> maxConcurrentPositions = 3, positionSizePercent = 20,
     maxLeverage = 5, maxPositionSize = 100, maxDailyLoss = 3,
     allowedSymbols = [''BTCUSDT'', ''ETHUSDT'', ''BNBUSDT'', ''SOLUSDT''] \<rparr>"

section \<open>Trading types\<close>

datatype PositionSide = LONG | SHORT

datatype StopLossType = SL_FIXED | SL_TRAILING | SL_ATR_BASED

datatype TakeProfitType = TP_FIXED | TP_PARTIAL

record StopLossConfig =
  sl_type :: StopLossType
  sl_percentage :: real

record TakeProfitConfig =
  tp_type :: TakeProfitType
  tp_percentage :: real

text \<open>
  \<open>TradingStrategy\<close> (and \<open>OptimizedStrategy\<close>, which extends it): the fields read by
  the risk manager, the optimizer and the executor. \<open>strategyId\<close>, \<open>stopLossCfg\<close> and
  \<open>takeProfitCfg\<close> are the fields \<open>id\<close>, \<open>stopLoss\<close> and \<open>takeProfit\<close> of the
  source. The free-text fields (\<open>reasoning\<close>, \<open>entryCondition\<close>) and the provenance
  fields are read by no function embedded here.
\<close>

record TradingStrategy =
  strategyId :: string
  symbol :: string
  side :: PositionSide
  entryPrice :: real
  leverage :: real
  positionSize :: real
  stopLossCfg :: StopLossConfig
  takeProfitCfg :: TakeProfitConfig
  confidence :: real
  riskScore :: real

text \<open>
  \<open>Position\<close>. Its fields carry the prefix \<open>p_\<close> where a strategy has a field of
  the same name.
\<close>

record Position =
  p_id :: string
  p_symbol :: string
  p_side :: PositionSide
  p_entryPrice :: real
  currentPrice :: real
  p_size :: real
  p_leverage :: real
  unrealizedPnL :: real
  realizedPnL :: real
  stopLoss :: real
  takeProfit :: real
  isTrailingSL :: bool
  openTime :: jsdate
  lastUpdateTime :: jsdate

section \<open>Risk manager: price and P and L arithmetic\<close>

text \<open>\<open>RiskManager.calculateStopLoss\<close>.\<close>

definition calculateStopLoss :: "real \<Rightarrow> PositionSide \<Rightarrow> real \<Rightarrow> real" where
  "calculateStopLoss entry sd percentage =
     (if sd = LONG then entry * (1 - percentage / 100)
      else entry * (1 + percentage / 100))"

text \<open>\<open>RiskManager.calculateTakeProfit\<close>.\<close>

definition calculateTakeProfit :: "real \<Rightarrow> PositionSide \<Rightarrow> real \<Rightarrow> real" where
  "calculateTakeProfit entry sd percentage =
     (if sd = LONG then entry * (1 + percentage / 100)
      else entry * (1 - percentage / 100))"

text \<open>
  \<open>RiskManager.calculateTrailingStopLoss\<close>. The entry price is a parameter of the
  source that its body never reads.
\<close>

definition calculateTrailingStopLoss :: "real \<Rightarrow> real \<Rightarrow> PositionSide \<Rightarrow> real \<Rightarrow> real" where
  "calculateTrailingStopLoss current entry sd trailingDistance =
     (if sd = LONG then current * (1 - trailingDistance / 100)
      else current * (1 + trailingDistance / 100))"

text \<open>\<open>RiskManager.shouldTriggerStopLoss\<close> and \<open>shouldTriggerTakeProfit\<close>.\<close>

definition shouldTriggerStopLoss :: "real \<Rightarrow> real \<Rightarrow> PositionSide \<Rightarrow> bool" where
  "shouldTriggerStopLoss current stop sd =
     (if sd = LONG then current \<le> stop else current \<ge> stop)"

definition shouldTriggerTakeProfit :: "real \<Rightarrow> real \<Rightarrow> PositionSide \<Rightarrow> bool" where
  "shouldTriggerTakeProfit current target sd =
     (if sd = LONG then current \<ge> target else current \<le> target)"

text \<open>
  \<open>RiskManager.calculatePnL\<close>: a percentage; the size is a parameter the body never
  reads. The source divides by the entry price.
\<close>

definition calculatePnL :: "real \<Rightarrow> real \<Rightarrow> real \<Rightarrow> real \<Rightarrow> PositionSide \<Rightarrow> real" where
  "calculatePnL entry current sz lev sd =
     (let priceChange = (if sd = LONG then (current - entry) / entry
                         else (entry - current) / entry)
      in priceChange * lev * 100)"

section \<open>Risk manager: the daily counters\<close>

text \<open>The fields of a \<open>RiskManager\<close> instance.\<close>

record RiskManager =
  dailyPnL :: real
  dailyTrades :: real
  lastResetDate :: jsdate

text \<open>The field initialisers of the class, run when the instance is constructed.\<close>

definition newRiskManager :: "jsdate \<Rightarrow> RiskManager" where
  "newRiskManager now = \<lparr> dailyPnL = 0, dailyTrades = 0, lastResetDate = now \<rparr>"

text \<open>
  \<open>RiskManager.resetDailyCounters\<close>: the counters are cleared when the day of the
  month of the clock differs from the day of the month of the stored date.
\<close>

definition resetDailyCounters :: "jsdate \<Rightarrow> RiskManager \<Rightarrow> RiskManager" where
  "resetDailyCounters now rm =
     (if getDate now \<noteq> getDate (lastResetDate rm)
      then rm\<lparr> dailyPnL := 0, dailyTrades := 0, lastResetDate := now \<rparr>
      else rm)"

text \<open>\<open>RiskManager.isDailyLossLimitExceeded\<close>: the answer and the manager after the call.\<close>

definition isDailyLossLimitExceeded ::
  "trading_config \<Rightarrow> jsdate \<Rightarrow> RiskManager \<Rightarrow> bool \<times> RiskManager" where
  "isDailyLossLimitExceeded cfg now rm =
     (let rm1 = resetDailyCounters now rm;
          lossLimit = maxDailyLoss cfg;
          currentLossPercent = \<bar>dailyPnL rm1\<bar>
      in (if currentLossPercent \<ge> lossLimit then (True, rm1) else (False, rm1)))"

text \<open>\<open>RiskManager.updateDailyPnL\<close>.\<close>

definition updateDailyPnL :: "jsdate \<Rightarrow> real \<Rightarrow> RiskManager \<Rightarrow> RiskManager" where
  "updateDailyPnL now pnl rm =
     (let rm1 = resetDailyCounters now rm
      in rm1\<lparr> dailyPnL := dailyPnL rm1 + pnl \<rparr>)"

text \<open>\<open>RiskManager.getDailyStats\<close>: the pair \<open>(pnl, trades)\<close> and the manager after the call.\<close>

definition getDailyStats :: "jsdate \<Rightarrow> RiskManager \<Rightarrow> (real \<times> real) \<times> RiskManager" where
  "getDailyStats now rm =
     (let rm1 = resetDailyCounters now rm
      in ((dailyPnL rm1, dailyTrades rm1), rm1))"

section \<open>Risk manager: the assessment\<close>

datatype Recommendation = APPROVE | REJECT | REDUCE_SIZE

text \<open>
  The reason strings of the sources, one constructor for each message; a constructor
  carries the values the message interpolates.
  \<^item> \<open>RiskScoreTooHigh\<close>: \<^verbatim>\<open>Risk score too high (>8/10)\<close>
  \<^item> \<open>ModerateHighRisk\<close>: \<^verbatim>\<open>Moderate-high risk detected\<close>
  \<^item> \<open>SuggestReduceSize\<close>: \<^verbatim>\<open>Suggest reducing position size by 50%\<close>
  \<^item> \<open>DailyLossLimitExceeded\<close>: \<^verbatim>\<open>Daily loss limit exceeded\<close>
  \<^item> \<open>LeverageExceedsMax m\<close>: \<^verbatim>\<open>Leverage exceeds max (${m}x)\<close>
  \<^item> \<open>PositionSizeExceedsMax m\<close>: \<^verbatim>\<open>Position size exceeds max ($${m})\<close>
  \<^item> \<open>MaxConcurrentReached n\<close>: \<^verbatim>\<open>Maximum concurrent positions reached (${n})\<close>
  \<^item> \<open>AlreadyHavePosition s\<close>: \<^verbatim>\<open>Already have position for ${s}\<close>
  \<^item> \<open>AllChecksPassed\<close>: \<^verbatim>\<open>All risk checks passed\<close>
  \<^item> \<open>TotalRiskScore x\<close>: \<^verbatim>\<open>Total risk score: ${x.toFixed(2)}/10\<close>
  \<^item> \<open>MaxConcurrentAlreadyOpen n\<close>: \<^verbatim>\<open>Maximum concurrent positions (${n}) already open\<close>
  \<^item> \<open>AlreadyHaveOpenPosition s\<close>: \<^verbatim>\<open>Already have open position for ${s}\<close>
  \<^item> \<open>SymbolNotAllowed s l\<close>: \<^verbatim>\<open>Symbol ${s} not allowed. Only trade: ${l.join(', ')}\<close>
\<close>

datatype Reason =
    RiskScoreTooHigh
  | ModerateHighRisk
  | SuggestReduceSize
  | DailyLossLimitExceeded
  | LeverageExceedsMax real
  | PositionSizeExceedsMax real
  | MaxConcurrentReached int
  | AlreadyHavePosition string
  | AllChecksPassed
  | TotalRiskScore real
  | MaxConcurrentAlreadyOpen int
  | AlreadyHaveOpenPosition string
  | SymbolNotAllowed string "string list"

record Factor =
  factorName :: string
  factorValue :: real
  factorWeight :: real

record RiskAssessment =
  score :: real
  factors :: "Factor list"
  recommendation :: Recommendation
  reasons :: "Reason list"

text \<open>
  \<open>parseInt(process.env.MAX_CONCURRENT_POSITIONS || '4')\<close> as \<open>assessRisk\<close>
  evaluates it: the argument is the parsed value of the variable, \<open>None\<close> when the
  variable is unset or empty.
\<close>

definition maxPositionsOf :: "int option \<Rightarrow> int" where
  "maxPositionsOf env = (case env of None \<Rightarrow> 4 | Some n \<Rightarrow> n)"

text \<open>The five factors of \<open>assessRisk\<close>, in the order the source pushes them.\<close>

definition riskFactors :: "trading_config \<Rightarrow> TradingStrategy \<Rightarrow> Position list \<Rightarrow> Factor list" where
  "riskFactors cfg strategy currentPositions =
     (let leverageRisk = leverage strategy / maxLeverage cfg;
          sizeRisk = positionSize strategy / maxPositionSize cfg;
          confidenceRisk = 1 - (confidence strategy / 100);
          marketRisk = riskScore strategy / 10;
          concentrationRisk = real (length currentPositions) / 5
      in [ \<lparr> factorName = ''Leverage'', factorValue = leverageRisk, factorWeight = 0.3 \<rparr>,
           \<lparr> factorName = ''Position Size'', factorValue = sizeRisk, factorWeight = 0.2 \<rparr>,
           \<lparr> factorName = ''Confidence'', factorValue = confidenceRisk, factorWeight = 0.15 \<rparr>,
           \<lparr> factorName = ''Market Conditions'', factorValue = marketRisk, factorWeight = 0.25 \<rparr>,
           \<lparr> factorName = ''Concentration'', factorValue = min concentrationRisk 1,
             factorWeight = 0.1 \<rparr> ])"

text \<open>The \<open>reduce\<close> over the factors.\<close>

definition totalScoreOf :: "Factor list \<Rightarrow> real" where
  "totalScoreOf fs = foldl (\<lambda>sum factor. sum + (factorValue factor * factorWeight factor * 10)) 0 fs"

text \<open>The recommendation and the reasons after the comparison of the score with 8 and 6.\<close>

definition scoreDecision :: "real \<Rightarrow> Recommendation \<times> Reason list" where
  "scoreDecision totalScore =
     (if totalScore > 8 then (REJECT, [RiskScoreTooHigh])
      else if totalScore > 6 then (REDUCE_SIZE, [ModerateHighRisk, SuggestReduceSize])
      else (APPROVE, []))"

text \<open>
  One additional check of \<open>assessRisk\<close>:
  \<^verbatim>\<open>if (c) { recommendation = 'REJECT'; reasons.push(r); }\<close>
\<close>

definition override ::
  "bool \<Rightarrow> Reason \<Rightarrow> Recommendation \<times> Reason list \<Rightarrow> Recommendation \<times> Reason list" where
  "override c r d = (if c then (REJECT, snd d @ [r]) else d)"

text \<open>
  \<open>RiskManager.assessRisk\<close>: the assessment and the manager after the call (the daily
  check refreshes the counters). \<open>env\<close> is the parsed \<open>MAX_CONCURRENT_POSITIONS\<close>.
\<close>

definition assessRisk ::
  "trading_config \<Rightarrow> int option \<Rightarrow> jsdate \<Rightarrow> TradingStrategy \<Rightarrow> Position list \<Rightarrow> RiskManager
     \<Rightarrow> RiskAssessment \<times> RiskManager" where
  "assessRisk cfg env now strategy currentPositions rm =
     (let fs = riskFactors cfg strategy currentPositions;
          totalScore = totalScoreOf fs;
          d0 = scoreDecision totalScore;
          (exceeded, rm1) = isDailyLossLimitExceeded cfg now rm;
          d1 = override exceeded DailyLossLimitExceeded d0;
          d2 = override (leverage strategy > maxLeverage cfg)
                 (LeverageExceedsMax (maxLeverage cfg)) d1;
          d3 = override (positionSize strategy > maxPositionSize cfg)
                 (PositionSizeExceedsMax (maxPositionSize cfg)) d2;
          maxPositions = maxPositionsOf env;
          d4 = override (int (length currentPositions) \<ge> maxPositions)
                 (MaxConcurrentReached maxPositions) d3;
          hasDuplicate = list_ex (\<lambda>p. p_symbol p = symbol strategy) currentPositions;
          d5 = override hasDuplicate (AlreadyHavePosition (symbol strategy)) d4;
          d6 = (if fst d5 = APPROVE
                then (fst d5, snd d5 @ [AllChecksPassed, TotalRiskScore totalScore])
                else d5)
      in (\<lparr> score = totalScore, factors = fs, recommendation = fst d6, reasons = snd d6 \<rparr>,
          rm1))"

section \<open>The optimizer's admission gate\<close>

datatype error = Error string

record Agent2Output =
  optimizedStrategy :: TradingStrategy
  riskAssessment :: RiskAssessment

text \<open>The assessment the optimizer returns from each of its three early checks.\<close>

definition gateReject :: "Reason \<Rightarrow> RiskAssessment" where
  "gateReject r = \<lparr> score = 10, factors = [], recommendation = REJECT, reasons = [r] \<rparr>"

text \<open>
  \<open>Agent2Optimizer.execute\<close>, up to the output fields the orchestrator reads
  (\<open>optimizedStrategy\<close> and \<open>riskAssessment\<close>). \<open>optimizeStrategy\<close> is the oracle
  \<open>claudeService.optimizeStrategy\<close>, which may throw; \<open>walletBalance\<close> is \<open>None\<close>
  for an omitted argument. The result is the thrown error or the output, and the
  risk manager after the call.
\<close>

definition agent2_execute ::
  "trading_config \<Rightarrow> int option \<Rightarrow> jsdate
     \<Rightarrow> (TradingStrategy \<Rightarrow> Position list \<Rightarrow> error + TradingStrategy)
     \<Rightarrow> TradingStrategy \<Rightarrow> Position list \<Rightarrow> real option \<Rightarrow> RiskManager
     \<Rightarrow> (error + Agent2Output) \<times> RiskManager" where
  "agent2_execute cfg env now optimizeStrategy initialStrategy currentPositions walletBalance rm =
     (if int (length currentPositions) \<ge> maxConcurrentPositions cfg
      then (Inr \<lparr> optimizedStrategy = initialStrategy,
                  riskAssessment = gateReject (MaxConcurrentAlreadyOpen (maxConcurrentPositions cfg)) \<rparr>,
            rm)
      else if find (\<lambda>p. p_symbol p = symbol initialStrategy) currentPositions \<noteq> None
      then (Inr \<lparr> optimizedStrategy = initialStrategy,
                  riskAssessment = gateReject (AlreadyHaveOpenPosition (symbol initialStrategy)) \<rparr>,
            rm)
      else if \<not> List.member (allowedSymbols cfg) (symbol initialStrategy)
      then (Inr \<lparr> optimizedStrategy = initialStrategy,
                  riskAssessment = gateReject
                    (SymbolNotAllowed (symbol initialStrategy) (allowedSymbols cfg)) \<rparr>,
            rm)
      else
        (let strategy1 =
               (case walletBalance of
                  None \<Rightarrow> initialStrategy
                | Some wb \<Rightarrow>
                    if wb \<noteq> 0
                    then initialStrategy\<lparr> positionSize :=
                           min (wb * (positionSizePercent cfg / 100)) (maxPositionSize cfg) \<rparr>
                    else initialStrategy);
             (assessment, rm1) = assessRisk cfg env now strategy1 currentPositions rm
         in case optimizeStrategy strategy1 currentPositions of
              Inl e \<Rightarrow> (Inl e, rm1)
            | Inr optimized \<Rightarrow>
                (Inr \<lparr> optimizedStrategy = optimized, riskAssessment = assessment \<rparr>, rm1)))"

section \<open>The executor: order quantity\<close>

text \<open>\<open>Math.floor\<close> and \<open>Math.round\<close> (halves round towards plus infinity).\<close>

definition Math_floor :: "real \<Rightarrow> real" where
  "Math_floor x = of_int \<lfloor>x\<rfloor>"

definition Math_round :: "real \<Rightarrow> real" where
  "Math_round x = of_int \<lfloor>x + 1 / 2\<rfloor>"

text \<open>
  \<open>Agent3Executor.calculateQuantity\<close>. Both branches of each of the three
  conditionals on the symbol hold the same constant, as in the source.
\<close>

definition calculateQuantity :: "TradingStrategy \<Rightarrow> real" where
  "calculateQuantity strategy =
     (let notionalValue = positionSize strategy;
          rawQuantity = notionalValue / entryPrice strategy;
          precision = (if symbol strategy = ''BTCUSDT'' then 3 else 3 :: nat);
          stepSize = (if symbol strategy = ''BTCUSDT'' then 0.001 else 0.001 :: real);
          minQuantity = (if symbol strategy = ''BTCUSDT'' then 0.001 else 0.001 :: real);
          roundedQuantity = Math_floor (rawQuantity / stepSize) * stepSize;
          roundedQuantity1 = (if roundedQuantity < minQuantity then minQuantity
                              else roundedQuantity);
          finalQuantity = Math_round (roundedQuantity1 * 10 ^ precision) / 10 ^ precision
      in finalQuantity)"

section \<open>The executor: position monitoring\<close>

datatype CloseReason = STOP_LOSS | TAKE_PROFIT

text \<open>
  The state the monitoring code reads and writes.
  \<^item> \<open>activeMonitoring\<close> and \<open>activePositions\<close> are the two \<open>Map\<close> fields of
    \<open>Agent3Executor\<close>, kept as association lists in insertion order; the value of
    \<open>activeMonitoring\<close> is the handle \<open>setInterval\<close> returned.
  \<^item> \<open>subscriptions\<close> is the \<open>Map\<close> of \<open>AsterService\<close> from a channel name to its
    callback. Every callback the executor installs is
    \<open>(price) => this.onPriceUpdate(symbol, price)\<close>; the entry holds that symbol.
  \<^item> \<open>intervals\<close> holds the handles of the interval timers that are armed, and
    \<open>nextHandle\<close> is the handle the next \<open>setInterval\<close> returns.
  \<^item> \<open>closeCalls\<close> records, in order, every call \<open>asterService.closePosition(symbol,
    side)\<close> the executor has issued, with the reason \<open>closePosition\<close> was given.
\<close>

record ExecState =
  activeMonitoring :: "(string \<times> nat) list"
  activePositions :: "(string \<times> Position) list"
  subscriptions :: "(string \<times> string) list"
  intervals :: "nat list"
  nextHandle :: nat
  closeCalls :: "(string \<times> PositionSide \<times> CloseReason) list"

definition channelOf :: "string \<Rightarrow> string" where
  "channelOf symb = ''ticker.'' @ symb"

text \<open>An executor that monitors nothing.\<close>

definition emptyExec :: ExecState where
  "emptyExec = \<lparr> activeMonitoring = [], activePositions = [], subscriptions = [],
     intervals = [], nextHandle = 0, closeCalls = [] \<rparr>"

text \<open>
  \<open>Agent3Executor.startMonitoring\<close>: the subscription (\<open>subscribeToPrice\<close> sets the
  channel's callback) and the interval timer.
\<close>

definition startMonitoring :: "string \<Rightarrow> ExecState \<Rightarrow> ExecState" where
  "startMonitoring symb st =
     (let intervalCheck = nextHandle st
      in st\<lparr> subscriptions := AList.update (channelOf symb) symb (subscriptions st),
              intervals := intervals st @ [intervalCheck],
              nextHandle := Suc (nextHandle st),
              activeMonitoring := AList.update symb intervalCheck (activeMonitoring st) \<rparr>)"

text \<open>
  \<open>Agent3Executor.stopMonitoring\<close>. A timer handle of the runtime is an object, so
  the test \<open>if (intervalId)\<close> of the source asks whether the map has the key.
\<close>

definition stopMonitoring :: "string \<Rightarrow> ExecState \<Rightarrow> ExecState" where
  "stopMonitoring symb st =
     (let st1 = (case map_of (activeMonitoring st) symb of
                   Some intervalId \<Rightarrow>
                     st\<lparr> intervals := removeAll intervalId (intervals st),
                         activeMonitoring := AList.delete symb (activeMonitoring st) \<rparr>
                 | None \<Rightarrow> st)
      in st1\<lparr> subscriptions := AList.delete (channelOf symb) (subscriptions st1) \<rparr>)"

text \<open>
  \<open>Agent3Executor.closePosition\<close> is asynchronous. \<open>closePosition_start\<close> is its
  body up to the \<open>await\<close>: it runs inside the caller's turn and issues the close
  order. \<open>closePosition_resume\<close> is the rest, run when the exchange has answered:
  \<open>position\<close> is the object the first part looked up, \<open>result\<close> the answer. A
  rejected order is caught and changes nothing.
\<close>

definition closePosition_start :: "string \<Rightarrow> CloseReason \<Rightarrow> ExecState \<Rightarrow> ExecState" where
  "closePosition_start symb reason st =
     (case map_of (activePositions st) symb of
        None \<Rightarrow> st
      | Some position \<Rightarrow>
          st\<lparr> closeCalls := closeCalls st @
                 [(symb, (if p_side position = LONG then LONG else SHORT), reason)] \<rparr>)"

definition closePosition_resume ::
  "jsdate \<Rightarrow> string \<Rightarrow> Position \<Rightarrow> error + unit \<Rightarrow> ExecState \<times> RiskManager
     \<Rightarrow> ExecState \<times> RiskManager" where
  "closePosition_resume now symb position result s =
     (case result of
        Inl e \<Rightarrow> s
      | Inr u \<Rightarrow>
          (let rm1 = updateDailyPnL now (unrealizedPnL position) (snd s);
               st1 = stopMonitoring symb (fst s)
           in (st1\<lparr> activePositions := AList.delete symb (activePositions st1) \<rparr>, rm1)))"

text \<open>
  \<open>Agent3Executor.onPriceUpdate\<close>, the handler of a price tick. The position object
  is updated in place, so the entry keeps its slot in the map. The periodic console
  report at the end of the source changes no state.
\<close>

definition onPriceUpdate :: "jsdate \<Rightarrow> string \<Rightarrow> real \<Rightarrow> ExecState \<Rightarrow> ExecState" where
  "onPriceUpdate now symb price st =
     (case map_of (activePositions st) symb of
        None \<Rightarrow> st
      | Some position0 \<Rightarrow>
          (let position = position0\<lparr> currentPrice := price, lastUpdateTime := now,
                 unrealizedPnL := calculatePnL (p_entryPrice position0) price
                   (p_size position0) (p_leverage position0) (p_side position0) \<rparr>;
               st1 = st\<lparr> activePositions := AList.update symb position (activePositions st) \<rparr>
           in if shouldTriggerStopLoss price (stopLoss position) (p_side position)
              then closePosition_start symb STOP_LOSS st1
              else if shouldTriggerTakeProfit price (takeProfit position) (p_side position)
              then closePosition_start symb TAKE_PROFIT st1
              else if isTrailingSL position \<and> unrealizedPnL position > 5
              then (let newStopLoss = calculateTrailingStopLoss price (p_entryPrice position)
                          (p_side position) 3
                    in if p_side position = LONG \<and> newStopLoss > stopLoss position
                       then st1\<lparr> activePositions := AList.update symb
                              (position\<lparr> stopLoss := newStopLoss \<rparr>) (activePositions st1) \<rparr>
                       else if p_side position = SHORT \<and> newStopLoss < stopLoss position
                       then st1\<lparr> activePositions := AList.update symb
                              (position\<lparr> stopLoss := newStopLoss \<rparr>) (activePositions st1) \<rparr>
                       else st1)
              else st1))"

text \<open>
  The ticks of a price stream, handled one after the other: each tick is the clock
  reading, the symbol and the price. \<open>tickStates\<close> lists the state after each tick.
\<close>

fun tickStates :: "(jsdate \<times> string \<times> real) list \<Rightarrow> ExecState \<Rightarrow> ExecState list" where
  "tickStates [] st = []"
| "tickStates ((now, symb, price) # ticks) st =
     (let st1 = onPriceUpdate now symb price st in st1 # tickStates ticks st1)"

text \<open>The stop price stored for a symbol, when the symbol has a position.\<close>

definition storedStop :: "string \<Rightarrow> ExecState \<Rightarrow> real option" where
  "storedStop symb st = map_option stopLoss (map_of (activePositions st) symb)"

text \<open>
  \<open>AsterPosition\<close>, an entry of the exchange's position list, and
  \<open>Agent3Executor.checkPositionStatus\<close> from the point where
  \<open>asterService.getPositions()\<close> has answered: \<open>result\<close> is the list, or the error
  the \<open>catch\<close> of the source receives. (\<open>getPositions\<close> answers a failed request
  with the empty list.)
\<close>

record AsterPosition =
  ap_symbol :: string
  ap_positionAmt :: real

definition checkPositionStatus :: "string \<Rightarrow> error + AsterPosition list \<Rightarrow> ExecState \<Rightarrow> ExecState" where
  "checkPositionStatus symb result st =
     (case result of
        Inl e \<Rightarrow> st
      | Inr positions \<Rightarrow>
          (case find (\<lambda>p. ap_symbol p = symb) positions of
             None \<Rightarrow> stopMonitoring symb st
           | Some asterPosition \<Rightarrow> st))"

text \<open>\<open>Agent3Executor.getActivePositions\<close>.\<close>

definition getActivePositions :: "ExecState \<Rightarrow> Position list" where
  "getActivePositions st = map snd (activePositions st)"

section \<open>The orchestrator: one cycle\<close>

datatype AgentType = COLLECTOR | OPTIMIZER | EXECUTOR

datatype AgentStatus = IDLE | RUNNING | SUCCESS | ERROR | WAITING

text \<open>
  \<open>AgentMessage\<close>. The \<open>data\<close> field of an entry refers to the output object of a
  stage; the entry records which one (or \<open>null\<close>).
\<close>

datatype Payload = Agent1Data | Agent2Data | Agent3Data | NullData

record AgentMessage =
  agent :: AgentType
  timestamp :: jsdate
  status :: AgentStatus
  data :: Payload
  nextAgent :: "AgentType option"
  errorText :: "string option"

record Agent1Output =
  initialStrategy :: TradingStrategy

record Agent3Output =
  monitoringActive :: bool

text \<open>
  The orchestrator with the objects a cycle works on: its in-memory
  \<open>conversationHistory\<close>, the conversations file of \<open>HistoryManager\<close>
  (\<open>persisted\<close>), the executor and the risk manager.
\<close>

record SysState =
  isRunning :: bool
  conversationHistory :: "AgentMessage list"
  persisted :: "AgentMessage list"
  exec :: ExecState
  risk :: RiskManager

text \<open>
  \<open>HistoryManager.saveConversation\<close> with a file system that works: the file keeps
  the last 1000 entries. Its own failures are caught inside and reach no caller.
\<close>

definition saveConversation :: "AgentMessage \<Rightarrow> AgentMessage list \<Rightarrow> AgentMessage list" where
  "saveConversation message conversations =
     (let conversations1 = conversations @ [message]
      in if length conversations1 > 1000
         then drop (length conversations1 - 1000) conversations1
         else conversations1)"

text \<open>\<open>AgentOrchestrator.logConversation\<close>.\<close>

definition logConversation :: "AgentMessage \<Rightarrow> SysState \<Rightarrow> SysState" where
  "logConversation message st =
     st\<lparr> conversationHistory := conversationHistory st @ [message],
         persisted := saveConversation message (persisted st) \<rparr>"

text \<open>
  What the collaborators answer during one cycle, and the clock readings of the
  cycle: the collector (\<open>agent1.execute\<close>), the wallet reader (the parsed balance),
  the optimization oracle, the executor's \<open>execute\<close> (which also changes the
  executor), and \<open>config.agents.manualApprovalRequired\<close>.
\<close>

record CycleWorld =
  agent1Result :: "error + Agent1Output"
  walletResult :: "error + real"
  optimizeOracle :: "TradingStrategy \<Rightarrow> Position list \<Rightarrow> error + TradingStrategy"
  agent3Run :: "TradingStrategy \<Rightarrow> ExecState \<Rightarrow> (error + Agent3Output) \<times> ExecState"
  manualApprovalRequired :: bool
  tLog1 :: jsdate
  tAssess :: jsdate
  tLog2 :: jsdate
  tLog3 :: jsdate

text \<open>
  The body of the outer \<open>try\<close> of \<open>AgentOrchestrator.runCycle\<close>: the exception that
  leaves the body (\<open>None\<close> when it completes or returns) and the state it leaves.
\<close>

definition runCycle_body ::
  "trading_config \<Rightarrow> int option \<Rightarrow> CycleWorld \<Rightarrow> SysState \<Rightarrow> error option \<times> SysState" where
  "runCycle_body cfg env w st =
     (case agent1Result w of
        Inl e \<Rightarrow> (Some e, st)
      | Inr agent1Output \<Rightarrow>
          (let st1 = logConversation
                 \<lparr> agent = COLLECTOR, timestamp = tLog1 w, status = SUCCESS, data = Agent1Data,
                   nextAgent = Some OPTIMIZER, errorText = None \<rparr> st;
               currentPositions = getActivePositions (exec st1)
           in case walletResult w of
                Inl e \<Rightarrow> (Some e, st1)
              | Inr walletBalance \<Rightarrow>
                  (case agent2_execute cfg env (tAssess w) (optimizeOracle w)
                          (initialStrategy agent1Output) currentPositions (Some walletBalance)
                          (risk st1) of
                     (Inl e, rm1) \<Rightarrow> (Some e, st1\<lparr> risk := rm1 \<rparr>)
                   | (Inr agent2Output, rm1) \<Rightarrow>
                       (let st2 = logConversation
                              \<lparr> agent = OPTIMIZER, timestamp = tLog2 w, status = SUCCESS,
                                data = Agent2Data, nextAgent = Some EXECUTOR,
                                errorText = None \<rparr> (st1\<lparr> risk := rm1 \<rparr>)
                        in if recommendation (riskAssessment agent2Output) = REJECT
                           then (None, st2)
                           else
                             (let strategy =
                                    (if recommendation (riskAssessment agent2Output) = REDUCE_SIZE
                                     then (optimizedStrategy agent2Output)
                                            \<lparr> positionSize :=
                                                positionSize (optimizedStrategy agent2Output) * 0.5 \<rparr>
                                     else optimizedStrategy agent2Output)
                              in if manualApprovalRequired w
                                 then (None, st2)
                                 else
                                   (case agent3Run w strategy (exec st2) of
                                      (Inr agent3Output, ex1) \<Rightarrow>
                                        (None, logConversation
                                           \<lparr> agent = EXECUTOR, timestamp = tLog3 w,
                                             status = SUCCESS, data = Agent3Data,
                                             nextAgent = None, errorText = None \<rparr>
                                           (st2\<lparr> exec := ex1 \<rparr>))
                                    | (Inl (Error msg), ex1) \<Rightarrow>
                                        (None, logConversation
                                           \<lparr> agent = EXECUTOR, timestamp = tLog3 w,
                                             status = ERROR, data = NullData,
                                             nextAgent = None, errorText = Some msg \<rparr>
                                           (st2\<lparr> exec := ex1 \<rparr>))))))))"

text \<open>
  \<open>AgentOrchestrator.runCycle\<close>: the outer \<open>catch\<close> reports the exception on the
  console and returns. The first component is the exception that reaches the caller.
\<close>

definition runCycle ::
  "trading_config \<Rightarrow> int option \<Rightarrow> CycleWorld \<Rightarrow> SysState \<Rightarrow> error option \<times> SysState" where
  "runCycle cfg env w st =
     (case runCycle_body cfg env w st of
        (Some e, st1) \<Rightarrow> (None, st1)
      | (None, st1) \<Rightarrow> (None, st1))"

section \<open>Observations the statements use\<close>

text \<open>Two clock readings on one calendar day.\<close>

definition sameDay :: "jsdate \<Rightarrow> jsdate \<Rightarrow> bool" where
  "sameDay a b \<longleftrightarrow> calendarDate a = calendarDate b"

text \<open>How tight a recommendation is: approval, then the reduced size, then rejection.\<close>

definition severity :: "Recommendation \<Rightarrow> nat" where
  "severity r = (case r of APPROVE \<Rightarrow> 0 | REDUCE_SIZE \<Rightarrow> 1 | REJECT \<Rightarrow> 2)"

text \<open>
  Consecutive calls of \<open>assessRisk\<close> on one risk manager, each with its clock
  reading, candidate and position list; the assessments in order.
\<close>

fun assessAll ::
  "trading_config \<Rightarrow> int option \<Rightarrow> (jsdate \<times> TradingStrategy \<times> Position list) list
     \<Rightarrow> RiskManager \<Rightarrow> RiskAssessment list" where
  "assessAll cfg env [] rm = []"
| "assessAll cfg env ((now, strategy, currentPositions) # calls) rm =
     (let (a, rm1) = assessRisk cfg env now strategy currentPositions rm
      in a # assessAll cfg env calls rm1)"

text \<open>
  The stop prices stored for a symbol before the first tick and after each tick of a
  stream, in order.
\<close>

definition stopsAlong :: "string \<Rightarrow> (jsdate \<times> string \<times> real) list \<Rightarrow> ExecState \<Rightarrow> real list" where
  "stopsAlong symb ticks st = List.map_filter (storedStop symb) (st # tickStates ticks st)"

section \<open>Concrete inputs\<close>

definition ex_jan15 :: jsdate where
  "ex_jan15 = \<lparr> year = 2025, month = 1, dayOfMonth = 15, msOfDay = 0 \<rparr>"

definition ex_jan15_noon :: jsdate where
  "ex_jan15_noon = \<lparr> year = 2025, month = 1, dayOfMonth = 15, msOfDay = 43200000 \<rparr>"

definition ex_feb15 :: jsdate where
  "ex_feb15 = \<lparr> year = 2025, month = 2, dayOfMonth = 15, msOfDay = 0 \<rparr>"

text \<open>A long candidate at entry 100: leverage 2, size 50, confidence 80, risk score 3.\<close>

definition ex_strategy :: "string \<Rightarrow> TradingStrategy" where
  "ex_strategy s = \<lparr> strategyId = ''s1'', symbol = s, side = LONG, entryPrice = 100,
      leverage = 2, positionSize = 50,
      stopLossCfg = \<lparr> sl_type = SL_TRAILING, sl_percentage = 2 \<rparr>,
      takeProfitCfg = \<lparr> tp_type = TP_FIXED, tp_percentage = 4 \<rparr>,
      confidence = 80, riskScore = 3 \<rparr>"

text \<open>A candidate outside the default allow-list, over the leverage and size ceilings.\<close>

definition ex_risky :: TradingStrategy where
  "ex_risky = (ex_strategy ''DOGEUSDT'') \<lparr> leverage := 10, positionSize := 500 \<rparr>"

text \<open>A candidate of size 100 at entry 107500, the example of the source's comments.\<close>

definition ex_btc :: TradingStrategy where
  "ex_btc = (ex_strategy ''BTCUSDT'')\<lparr> entryPrice := 107500, positionSize := 100 \<rparr>"

text \<open>A long position with a trailing stop: entry 100, leverage 2, stop 98, target 110.\<close>

definition ex_position :: "string \<Rightarrow> Position" where
  "ex_position s = \<lparr> p_id = ''pos_1'', p_symbol = s, p_side = LONG, p_entryPrice = 100,
      currentPrice = 100, p_size = 50, p_leverage = 2, unrealizedPnL = 0, realizedPnL = 0,
      stopLoss = 98, takeProfit = 110, isTrailingSL = True, openTime = ex_jan15,
      lastUpdateTime = ex_jan15 \<rparr>"

text \<open>The same position held short, with stop 102 and target 90.\<close>

definition ex_short :: "string \<Rightarrow> Position" where
  "ex_short s = (ex_position s)\<lparr> p_side := SHORT, stopLoss := 102, takeProfit := 90 \<rparr>"

text \<open>A long position whose stop (105) lies above its target (104).\<close>

definition ex_gapped :: "string \<Rightarrow> Position" where
  "ex_gapped s = (ex_position s)\<lparr> stopLoss := 105, takeProfit := 104 \<rparr>"

definition ex_four :: "Position list" where
  "ex_four = [ex_position ''BTCUSDT'', ex_position ''ETHUSDT'', ex_position ''DOGEUSDT'',
     ex_position ''SOLUSDT'']"

text \<open>A risk manager created on 15 January that has booked a loss of 3 percent that day.\<close>

definition ex_loser :: RiskManager where
  "ex_loser = updateDailyPnL ex_jan15 (- 3) (newRiskManager ex_jan15)"

text \<open>An executor that holds one position and monitors it.\<close>

definition ex_monitored :: "Position \<Rightarrow> ExecState" where
  "ex_monitored p = startMonitoring (p_symbol p)
     (emptyExec\<lparr> activePositions := AList.update (p_symbol p) p [] \<rparr>)"

definition ex_ticks :: "(jsdate \<times> string \<times> real) list" where
  "ex_ticks = [(ex_jan15_noon, ''BTCUSDT'', 103), (ex_jan15_noon, ''BTCUSDT'', 102),
     (ex_jan15_noon, ''ETHUSDT'', 1), (ex_jan15_noon, ''BTCUSDT'', 104)]"

definition ex_ticks_down :: "(jsdate \<times> string \<times> real) list" where
  "ex_ticks_down = [(ex_jan15_noon, ''BTCUSDT'', 97), (ex_jan15_noon, ''BTCUSDT'', 98),
     (ex_jan15_noon, ''BTCUSDT'', 96)]"

text \<open>
  A cycle in which every collaborator after the collector succeeds, and an
  orchestrator that has logged nothing yet.
\<close>

definition ex_world :: "error + Agent1Output \<Rightarrow> CycleWorld" where
  "ex_world r = \<lparr> agent1Result = r, walletResult = Inr 1000,
      optimizeOracle = (\<lambda>s ps. Inr s),
      agent3Run = (\<lambda>s ex. (Inr \<lparr> monitoringActive = True \<rparr>, ex)),
      manualApprovalRequired = False,
      tLog1 = ex_jan15_noon, tAssess = ex_jan15_noon, tLog2 = ex_jan15_noon,
      tLog3 = ex_jan15_noon \<rparr>"

definition ex_sys :: SysState where
  "ex_sys = \<lparr> isRunning = True, conversationHistory = [], persisted = [], exec = emptyExec,
      risk = newRiskManager ex_jan15 \<rparr>"

lemmas ex_defs = ex_jan15_def ex_jan15_noon_def ex_feb15_def ex_strategy_def ex_position_def
  defaultConfig_def ex_monitored_def

lemmas risk_defs = assessRisk_def riskFactors_def totalScoreOf_def scoreDecision_def override_def
  isDailyLossLimitExceeded_def resetDailyCounters_def updateDailyPnL_def newRiskManager_def
  getDate_def maxPositionsOf_def Let_def

lemmas tick_defs = stopsAlong_def storedStop_def map_filter_simps Let_def onPriceUpdate_def
  calculatePnL_def shouldTriggerStopLoss_def shouldTriggerTakeProfit_def
  calculateTrailingStopLoss_def closePosition_start_def startMonitoring_def emptyExec_def
  channelOf_def

section \<open>The assessment: score, overrides and the admission gate\<close>

lemma override_fst: "fst (override c r d) = (if c then REJECT else fst d)"
  by (simp add: override_def)

lemma override_snd: "snd (override c r d) = (if c then snd d @ [r] else snd d)"
  by (simp add: override_def)

lemma assessRisk_score:
  "score (fst (assessRisk cfg env now s ps rm)) = totalScoreOf (riskFactors cfg s ps)"
  by (simp add: assessRisk_def Let_def split_def)

lemma assessRisk_factors:
  "factors (fst (assessRisk cfg env now s ps rm)) = riskFactors cfg s ps"
  by (simp add: assessRisk_def Let_def split_def)

text \<open>Any of the five additional checks rejects; with none of them the score decides.\<close>

lemma assessRisk_recommendation:
  "recommendation (fst (assessRisk cfg env now s ps rm)) =
     (if fst (isDailyLossLimitExceeded cfg now rm) \<or> leverage s > maxLeverage cfg \<or>
         positionSize s > maxPositionSize cfg \<or> int (length ps) \<ge> maxPositionsOf env \<or>
         list_ex (\<lambda>p. p_symbol p = symbol s) ps
      then REJECT
      else fst (scoreDecision (totalScoreOf (riskFactors cfg s ps))))"
  by (simp add: assessRisk_def Let_def split_def override_fst)

lemma assessRisk_reasons_keep:
  "set (snd (scoreDecision (totalScoreOf (riskFactors cfg s ps))))
     \<subseteq> set (reasons (fst (assessRisk cfg env now s ps rm)))"
  by (auto simp add: assessRisk_def Let_def split_def override_snd)

lemma assessRisk_reasons_override:
  "(fst (isDailyLossLimitExceeded cfg now rm) \<longrightarrow>
      DailyLossLimitExceeded \<in> set (reasons (fst (assessRisk cfg env now s ps rm)))) \<and>
   (leverage s > maxLeverage cfg \<longrightarrow>
      LeverageExceedsMax (maxLeverage cfg) \<in> set (reasons (fst (assessRisk cfg env now s ps rm)))) \<and>
   (positionSize s > maxPositionSize cfg \<longrightarrow>
      PositionSizeExceedsMax (maxPositionSize cfg)
        \<in> set (reasons (fst (assessRisk cfg env now s ps rm)))) \<and>
   (int (length ps) \<ge> maxPositionsOf env \<longrightarrow>
      MaxConcurrentReached (maxPositionsOf env)
        \<in> set (reasons (fst (assessRisk cfg env now s ps rm)))) \<and>
   (list_ex (\<lambda>p. p_symbol p = symbol s) ps \<longrightarrow>
      AlreadyHavePosition (symbol s) \<in> set (reasons (fst (assessRisk cfg env now s ps rm))))"
  by (simp add: assessRisk_def Let_def split_def override_snd override_fst)

text \<open>The only state \<open>assessRisk\<close> touches is the lazy refresh of the daily counters.\<close>

lemma assessRisk_state:
  "snd (assessRisk cfg env now s ps rm) = resetDailyCounters now rm"
  by (simp add: assessRisk_def Let_def split_def isDailyLossLimitExceeded_def)

lemma severity_REJECT: "severity r \<le> severity REJECT"
  by (cases r) (simp_all add: severity_def)

lemma agent2_gate:
  "\<not> List.member (allowedSymbols cfg) (symbol s) \<Longrightarrow>
   agent2_execute cfg env now oracle s ps wb rm =
     (Inr \<lparr> optimizedStrategy = s,
            riskAssessment = gateReject
              (if int (length ps) \<ge> maxConcurrentPositions cfg
               then MaxConcurrentAlreadyOpen (maxConcurrentPositions cfg)
               else if find (\<lambda>p. p_symbol p = symbol s) ps \<noteq> None
               then AlreadyHaveOpenPosition (symbol s)
               else SymbolNotAllowed (symbol s) (allowedSymbols cfg)) \<rparr>, rm)"
  by (simp add: agent2_execute_def)

text \<open>
  Claim C1, as stated, at a concrete input: \<open>assessRisk\<close> never reads the allow-list.
  With the default configuration, a candidate for \<open>DOGEUSDT\<close>, which is not among
  the allowed symbols, with leverage 2, size 50, confidence 80 and risk score 3, no
  open position and a fresh risk manager, is approved by \<open>assessRisk\<close>, and the
  reasons name no allow-list violation.
\<close>

theorem assessRisk_ignores_allow_list:
  "\<not> List.member (allowedSymbols defaultConfig) (symbol (ex_strategy ''DOGEUSDT'')) \<and>
   recommendation (fst (assessRisk defaultConfig None ex_jan15 (ex_strategy ''DOGEUSDT'') []
      (newRiskManager ex_jan15))) = APPROVE \<and>
   reasons (fst (assessRisk defaultConfig None ex_jan15 (ex_strategy ''DOGEUSDT'') []
      (newRiskManager ex_jan15))) = [AllChecksPassed, TotalRiskScore (13 / 4)]"
  by (simp add: ex_defs risk_defs)

text \<open>
  Claim C1, amended. The allow-list is enforced by the optimizer, the only caller of
  \<open>assessRisk\<close>, before the assessment: for every candidate whose symbol is not in
  the allow-list, \<open>Agent2Optimizer.execute\<close> returns recommendation Reject with
  exactly one reason and leaves the risk manager untouched; the reason names the
  allow-list violation unless the optimizer's earlier check of the position count or
  of an open position for the symbol has fired, which then gives its own reason.
  In \<open>assessRisk\<close> each of the five hard overrides (daily loss limit exceeded,
  leverage above the ceiling, size above the ceiling, position count at the maximum,
  open position for the symbol) forces Reject and appends its reason, and the
  overrides never loosen the outcome of the score: the final recommendation is at
  least as tight as the score's, and the score's reasons are kept.
\<close>

theorem admission_gate_and_overrides:
  "(\<not> List.member (allowedSymbols cfg) (symbol s) \<longrightarrow>
      (\<exists>out. agent2_execute cfg env now oracle s ps wb rm = (Inr out, rm) \<and>
         recommendation (riskAssessment out) = REJECT \<and>
         reasons (riskAssessment out) =
           [if int (length ps) \<ge> maxConcurrentPositions cfg
            then MaxConcurrentAlreadyOpen (maxConcurrentPositions cfg)
            else if find (\<lambda>p. p_symbol p = symbol s) ps \<noteq> None
            then AlreadyHaveOpenPosition (symbol s)
            else SymbolNotAllowed (symbol s) (allowedSymbols cfg)])) \<and>
   (let a = fst (assessRisk cfg env now s ps rm) in
      (fst (isDailyLossLimitExceeded cfg now rm) \<longrightarrow>
         recommendation a = REJECT \<and> DailyLossLimitExceeded \<in> set (reasons a)) \<and>
      (leverage s > maxLeverage cfg \<longrightarrow>
         recommendation a = REJECT \<and> LeverageExceedsMax (maxLeverage cfg) \<in> set (reasons a)) \<and>
      (positionSize s > maxPositionSize cfg \<longrightarrow>
         recommendation a = REJECT \<and>
         PositionSizeExceedsMax (maxPositionSize cfg) \<in> set (reasons a)) \<and>
      (int (length ps) \<ge> maxPositionsOf env \<longrightarrow>
         recommendation a = REJECT \<and> MaxConcurrentReached (maxPositionsOf env) \<in> set (reasons a)) \<and>
      (list_ex (\<lambda>p. p_symbol p = symbol s) ps \<longrightarrow>
         recommendation a = REJECT \<and> AlreadyHavePosition (symbol s) \<in> set (reasons a)) \<and>
      severity (fst (scoreDecision (score a))) \<le> severity (recommendation a) \<and>
      set (snd (scoreDecision (score a))) \<subseteq> set (reasons a))"
proof -
  let ?a = "fst (assessRisk cfg env now s ps rm)"
  have gate: "\<not> List.member (allowedSymbols cfg) (symbol s) \<longrightarrow>
      (\<exists>out. agent2_execute cfg env now oracle s ps wb rm = (Inr out, rm) \<and>
         recommendation (riskAssessment out) = REJECT \<and>
         reasons (riskAssessment out) =
           [if int (length ps) \<ge> maxConcurrentPositions cfg
            then MaxConcurrentAlreadyOpen (maxConcurrentPositions cfg)
            else if find (\<lambda>p. p_symbol p = symbol s) ps \<noteq> None
            then AlreadyHaveOpenPosition (symbol s)
            else SymbolNotAllowed (symbol s) (allowedSymbols cfg)])"
    by (simp add: agent2_gate gateReject_def)
  have rec: "recommendation ?a =
     (if fst (isDailyLossLimitExceeded cfg now rm) \<or> leverage s > maxLeverage cfg \<or>
         positionSize s > maxPositionSize cfg \<or> int (length ps) \<ge> maxPositionsOf env \<or>
         list_ex (\<lambda>p. p_symbol p = symbol s) ps
      then REJECT
      else fst (scoreDecision (totalScoreOf (riskFactors cfg s ps))))"
    by (rule assessRisk_recommendation)
  have sev: "severity (fst (scoreDecision (score ?a))) \<le> severity (recommendation ?a)"
    unfolding rec assessRisk_score by (simp add: severity_REJECT)
  have keep: "set (snd (scoreDecision (score ?a))) \<subseteq> set (reasons ?a)"
    unfolding assessRisk_score by (rule assessRisk_reasons_keep)
  show ?thesis
    unfolding Let_def
    using gate rec sev keep assessRisk_reasons_override [of cfg now rm env s ps]
    by simp
qed

theorem admission_gate_and_overrides_witness:
  "\<not> List.member (allowedSymbols defaultConfig) (symbol ex_risky) \<and>
   fst (isDailyLossLimitExceeded defaultConfig ex_jan15_noon ex_loser) \<and>
   leverage ex_risky > maxLeverage defaultConfig \<and>
   positionSize ex_risky > maxPositionSize defaultConfig \<and>
   int (length ex_four) \<ge> maxPositionsOf None \<and>
   list_ex (\<lambda>p. p_symbol p = symbol ex_risky) ex_four \<and>
   fst (agent2_execute defaultConfig None ex_jan15_noon (\<lambda>s ps. Inr s) ex_risky [] None ex_loser)
     = Inr \<lparr> optimizedStrategy = ex_risky,
             riskAssessment = \<lparr> score = 10, factors = [], recommendation = REJECT,
               reasons = [SymbolNotAllowed ''DOGEUSDT''
                 [''BTCUSDT'', ''ETHUSDT'', ''BNBUSDT'', ''SOLUSDT'']] \<rparr> \<rparr> \<and>
   recommendation (fst (assessRisk defaultConfig None ex_jan15_noon ex_risky ex_four ex_loser))
     = REJECT \<and>
   reasons (fst (assessRisk defaultConfig None ex_jan15_noon ex_risky ex_four ex_loser))
     = [RiskScoreTooHigh, DailyLossLimitExceeded, LeverageExceedsMax 5,
        PositionSizeExceedsMax 100, MaxConcurrentReached 4, AlreadyHavePosition ''DOGEUSDT'']"
  using admission_gate_and_overrides
      [of defaultConfig ex_risky None ex_jan15_noon "\<lambda>s ps. Inr s" "[]" None ex_loser]
    admission_gate_and_overrides
      [of defaultConfig ex_risky None ex_jan15_noon "\<lambda>s ps. Inr s" ex_four None ex_loser]
  by (simp add: ex_defs ex_loser_def ex_risky_def ex_four_def risk_defs agent2_execute_def
      gateReject_def)

text \<open>
  Claim C2. With positive leverage and size ceilings, the assessment holds exactly
  five factors: leverage over its ceiling with weight 0.30, size over its ceiling
  with weight 0.20, one minus confidence over 100 with weight 0.15, the risk score
  over 10 with weight 0.25, and the position count over 5 capped at 1 with weight
  0.10. The score is the sum over the factors of value times weight times 10. When
  no hard override holds, the recommendation is Reject for a score above 8,
  ReduceSize for a score above 6 and at most 8, and Approve otherwise.
\<close>

theorem assessRisk_score_and_recommendation:
  "0 < maxLeverage cfg \<and> 0 < maxPositionSize cfg \<longrightarrow>
   (let a = fst (assessRisk cfg env now s ps rm) in
      map factorName (factors a) =
        [''Leverage'', ''Position Size'', ''Confidence'', ''Market Conditions'', ''Concentration''] \<and>
      map factorValue (factors a) =
        [leverage s / maxLeverage cfg, positionSize s / maxPositionSize cfg,
         1 - confidence s / 100, riskScore s / 10, min (real (length ps) / 5) 1] \<and>
      map factorWeight (factors a) = [0.30, 0.20, 0.15, 0.25, 0.10] \<and>
      score a = (\<Sum>f\<leftarrow>factors a. factorValue f * factorWeight f * 10) \<and>
      (\<not> fst (isDailyLossLimitExceeded cfg now rm) \<and> \<not> leverage s > maxLeverage cfg \<and>
       \<not> positionSize s > maxPositionSize cfg \<and> \<not> int (length ps) \<ge> maxPositionsOf env \<and>
       \<not> list_ex (\<lambda>p. p_symbol p = symbol s) ps \<longrightarrow>
         recommendation a =
           (if score a > 8 then REJECT else if score a > 6 then REDUCE_SIZE else APPROVE)))"
proof -
  have f: "factors (fst (assessRisk cfg env now s ps rm)) = riskFactors cfg s ps"
    by (rule assessRisk_factors)
  have sc: "score (fst (assessRisk cfg env now s ps rm)) = totalScoreOf (riskFactors cfg s ps)"
    by (rule assessRisk_score)
  have sm: "totalScoreOf (riskFactors cfg s ps)
      = (\<Sum>f\<leftarrow>riskFactors cfg s ps. factorValue f * factorWeight f * 10)"
    by (simp add: riskFactors_def totalScoreOf_def Let_def)
  have r: "\<not> fst (isDailyLossLimitExceeded cfg now rm) \<and> \<not> leverage s > maxLeverage cfg \<and>
       \<not> positionSize s > maxPositionSize cfg \<and> \<not> int (length ps) \<ge> maxPositionsOf env \<and>
       \<not> list_ex (\<lambda>p. p_symbol p = symbol s) ps \<longrightarrow>
       recommendation (fst (assessRisk cfg env now s ps rm))
         = fst (scoreDecision (totalScoreOf (riskFactors cfg s ps)))"
    by (simp add: assessRisk_recommendation)
  show ?thesis
    unfolding Let_def f sc
    using r sm by (simp add: riskFactors_def Let_def scoreDecision_def sc)
qed

theorem assessRisk_score_and_recommendation_witness:
  "0 < maxLeverage defaultConfig \<and> 0 < maxPositionSize defaultConfig \<and>
   \<not> fst (isDailyLossLimitExceeded defaultConfig ex_jan15 (newRiskManager ex_jan15)) \<and>
   \<not> leverage (ex_strategy ''BTCUSDT'') > maxLeverage defaultConfig \<and>
   \<not> positionSize (ex_strategy ''BTCUSDT'') > maxPositionSize defaultConfig \<and>
   \<not> int (length ([] :: Position list)) \<ge> maxPositionsOf None \<and>
   \<not> list_ex (\<lambda>p. p_symbol p = symbol (ex_strategy ''BTCUSDT'')) [] \<and>
   score (fst (assessRisk defaultConfig None ex_jan15 (ex_strategy ''BTCUSDT'') []
      (newRiskManager ex_jan15))) = 13 / 4 \<and>
   recommendation (fst (assessRisk defaultConfig None ex_jan15 (ex_strategy ''BTCUSDT'') []
      (newRiskManager ex_jan15))) = APPROVE"
  using assessRisk_score_and_recommendation
    [of defaultConfig None ex_jan15 "ex_strategy ''BTCUSDT''" "[]" "newRiskManager ex_jan15"]
  by (simp add: ex_defs risk_defs)

section \<open>The daily counters\<close>

lemma sameDay_getDate: "sameDay a b \<Longrightarrow> getDate a = getDate b"
  by (simp add: sameDay_def calendarDate_def getDate_def)

text \<open>An access on the calendar day of the stored date leaves the manager as it is.\<close>

lemma reset_sameDay: "sameDay now (lastResetDate rm) \<Longrightarrow> resetDailyCounters now rm = rm"
  by (simp add: resetDailyCounters_def sameDay_getDate)

text \<open>An access on another day of the month clears the counters and stores the clock.\<close>

lemma reset_other_day:
  "getDate now \<noteq> getDate (lastResetDate rm) \<Longrightarrow>
   resetDailyCounters now rm = \<lparr> dailyPnL = 0, dailyTrades = 0, lastResetDate = now \<rparr>"
  by (simp add: resetDailyCounters_def)

lemma isDailyLossLimitExceeded_fst:
  "fst (isDailyLossLimitExceeded cfg now rm)
     = (\<bar>dailyPnL (resetDailyCounters now rm)\<bar> \<ge> maxDailyLoss cfg)"
  by (simp add: isDailyLossLimitExceeded_def Let_def)

text \<open>
  Claim C3, evaluated where the code departs from it. A risk manager created on
  15 January 2025 books a loss of 3 percent that day and is next accessed on
  15 February 2025. The clock's date is later than the stored reset date, yet the
  rollover check changes nothing, because both dates have day of the month 15: the
  daily statistics still report the loss of January, and with the default limit of
  3 percent the daily loss limit still counts as exceeded.
\<close>

theorem rollover_missed_on_equal_day_of_month:
  "laterDate ex_feb15 (lastResetDate (updateDailyPnL ex_jan15 (- 3) (newRiskManager ex_jan15))) \<and>
   resetDailyCounters ex_feb15 (updateDailyPnL ex_jan15 (- 3) (newRiskManager ex_jan15))
     = updateDailyPnL ex_jan15 (- 3) (newRiskManager ex_jan15) \<and>
   fst (getDailyStats ex_feb15 (updateDailyPnL ex_jan15 (- 3) (newRiskManager ex_jan15)))
     = (- 3, 0) \<and>
   fst (isDailyLossLimitExceeded defaultConfig ex_feb15
          (updateDailyPnL ex_jan15 (- 3) (newRiskManager ex_jan15)))"
  by (simp add: ex_defs laterDate_def risk_defs getDailyStats_def)

lemma assessAll_length: "length (assessAll cfg env calls rm) = length calls"
  by (induction calls arbitrary: rm) (auto simp add: split_def Let_def)

text \<open>
  Once the limit is reached, every assessment of the same day rejects: the
  assessment leaves the counters as they are, so the next call finds them unchanged.
\<close>

lemma assessAll_rejects:
  "list_all (\<lambda>(now, s, ps). sameDay now (lastResetDate rm)) calls \<Longrightarrow>
   \<bar>dailyPnL rm\<bar> \<ge> maxDailyLoss cfg \<Longrightarrow>
   list_all (\<lambda>a. recommendation a = REJECT \<and> DailyLossLimitExceeded \<in> set (reasons a))
     (assessAll cfg env calls rm)"
proof (induction calls arbitrary: rm)
  case Nil
  then show ?case by simp
next
  case (Cons c calls)
  obtain now s ps where c: "c = (now, s, ps)" by (cases c) auto
  from Cons.prems(1) c have sd: "sameDay now (lastResetDate rm)" by simp
  then have keep: "resetDailyCounters now rm = rm" by (rule reset_sameDay)
  then have ex: "fst (isDailyLossLimitExceeded cfg now rm)"
    using Cons.prems(2) by (simp add: isDailyLossLimitExceeded_fst)
  have st: "snd (assessRisk cfg env now s ps rm) = rm"
    by (simp add: assessRisk_state keep)
  have rj: "recommendation (fst (assessRisk cfg env now s ps rm)) = REJECT"
    using ex by (simp add: assessRisk_recommendation)
  have rs: "DailyLossLimitExceeded \<in> set (reasons (fst (assessRisk cfg env now s ps rm)))"
    using ex assessRisk_reasons_override [of cfg now rm env s ps] by simp
  have tl: "list_all (\<lambda>a. recommendation a = REJECT \<and> DailyLossLimitExceeded \<in> set (reasons a))
     (assessAll cfg env calls rm)"
    using Cons.IH [of rm] Cons.prems by simp
  show ?case
    using st rj rs tl by (simp add: c split_def Let_def)
qed

text \<open>
  Claim C4. On the day of the stored reset date, \<open>isDailyLossLimitExceeded\<close>
  returns true exactly when the absolute value of the cumulative daily P and L is
  at least the configured limit. Let the limit be 3 and the cumulative daily P and
  L be 0. After two calls \<open>updateDailyPnL(-1.5)\<close> on that day,
  \<open>isDailyLossLimitExceeded\<close> on that day returns true and changes nothing, and
  every later \<open>assessRisk\<close> call of that day, for any candidate, position list and
  environment, returns Reject with the reason that the daily loss limit is
  exceeded, whatever the candidate's score.
\<close>

theorem daily_loss_limit_rejects:
  "(sameDay t0 (lastResetDate rm0) \<longrightarrow>
      fst (isDailyLossLimitExceeded cfg t0 rm0) = (\<bar>dailyPnL rm0\<bar> \<ge> maxDailyLoss cfg)) \<and>
   (maxDailyLoss cfg = 3 \<and> dailyPnL rm = 0 \<and>
    sameDay t1 (lastResetDate rm) \<and> sameDay t2 (lastResetDate rm) \<and>
    sameDay t3 (lastResetDate rm) \<and>
    list_all (\<lambda>(now, s, ps). sameDay now (lastResetDate rm)) calls \<longrightarrow>
    (let rm2 = updateDailyPnL t2 (- 1.5) (updateDailyPnL t1 (- 1.5) rm) in
       fst (isDailyLossLimitExceeded cfg t3 rm2) \<and>
       snd (isDailyLossLimitExceeded cfg t3 rm2) = rm2 \<and>
       length (assessAll cfg env calls rm2) = length calls \<and>
       list_all (\<lambda>a. recommendation a = REJECT \<and> DailyLossLimitExceeded \<in> set (reasons a))
         (assessAll cfg env calls rm2)))"
proof (intro conjI impI)
  assume "sameDay t0 (lastResetDate rm0)"
  then show "fst (isDailyLossLimitExceeded cfg t0 rm0) = (\<bar>dailyPnL rm0\<bar> \<ge> maxDailyLoss cfg)"
    by (simp add: isDailyLossLimitExceeded_fst reset_sameDay)
next
  assume h: "maxDailyLoss cfg = 3 \<and> dailyPnL rm = 0 \<and>
   sameDay t1 (lastResetDate rm) \<and> sameDay t2 (lastResetDate rm) \<and>
   sameDay t3 (lastResetDate rm) \<and>
   list_all (\<lambda>(now, s, ps). sameDay now (lastResetDate rm)) calls"
  define rm1 where "rm1 = updateDailyPnL t1 (- 1.5) rm"
  define rm2 where "rm2 = updateDailyPnL t2 (- 1.5) rm1"
  have r1: "rm1 = rm\<lparr> dailyPnL := - 1.5 \<rparr>"
    using h by (simp add: rm1_def updateDailyPnL_def reset_sameDay)
  have d1: "lastResetDate rm1 = lastResetDate rm" by (simp add: r1)
  have r2: "rm2 = rm\<lparr> dailyPnL := - 3 \<rparr>"
    using h d1 by (simp add: rm2_def updateDailyPnL_def reset_sameDay) (simp add: r1)
  have d2: "lastResetDate rm2 = lastResetDate rm" by (simp add: r2)
  have p2: "\<bar>dailyPnL rm2\<bar> \<ge> maxDailyLoss cfg" using h by (simp add: r2)
  have k3: "resetDailyCounters t3 rm2 = rm2" using h d2 by (simp add: reset_sameDay)
  have a: "fst (isDailyLossLimitExceeded cfg t3 rm2)"
    using p2 k3 by (simp add: isDailyLossLimitExceeded_fst)
  have b: "snd (isDailyLossLimitExceeded cfg t3 rm2) = rm2"
    using k3 by (simp add: isDailyLossLimitExceeded_def Let_def)
  have l: "length (assessAll cfg env calls rm2) = length calls"
    by (rule assessAll_length)
  have cs: "list_all (\<lambda>(now, s, ps). sameDay now (lastResetDate rm2)) calls"
    using h d2 by simp
  have e: "list_all (\<lambda>a. recommendation a = REJECT \<and> DailyLossLimitExceeded \<in> set (reasons a))
        (assessAll cfg env calls rm2)"
    using cs p2 by (rule assessAll_rejects)
  show "let rm2 = updateDailyPnL t2 (- 1.5) (updateDailyPnL t1 (- 1.5) rm) in
       fst (isDailyLossLimitExceeded cfg t3 rm2) \<and>
       snd (isDailyLossLimitExceeded cfg t3 rm2) = rm2 \<and>
       length (assessAll cfg env calls rm2) = length calls \<and>
       list_all (\<lambda>a. recommendation a = REJECT \<and> DailyLossLimitExceeded \<in> set (reasons a))
         (assessAll cfg env calls rm2)"
    unfolding Let_def using a b l e by (simp add: rm2_def rm1_def)
qed

theorem daily_loss_limit_rejects_witness:
  "sameDay ex_jan15_noon (lastResetDate ex_loser) \<and>
   fst (isDailyLossLimitExceeded defaultConfig ex_jan15_noon ex_loser) \<and>
   \<bar>dailyPnL ex_loser\<bar> \<ge> maxDailyLoss defaultConfig \<and>
   maxDailyLoss defaultConfig = 3 \<and> dailyPnL (newRiskManager ex_jan15) = 0 \<and>
   sameDay ex_jan15_noon (lastResetDate (newRiskManager ex_jan15)) \<and>
   list_all (\<lambda>(now, s, ps). sameDay now (lastResetDate (newRiskManager ex_jan15)))
     [(ex_jan15_noon, ex_strategy ''BTCUSDT'', [])] \<and>
   fst (isDailyLossLimitExceeded defaultConfig ex_jan15_noon
     (updateDailyPnL ex_jan15_noon (- 1.5) (updateDailyPnL ex_jan15_noon (- 1.5)
        (newRiskManager ex_jan15)))) \<and>
   map recommendation (assessAll defaultConfig None [(ex_jan15_noon, ex_strategy ''BTCUSDT'', [])]
     (updateDailyPnL ex_jan15_noon (- 1.5) (updateDailyPnL ex_jan15_noon (- 1.5)
        (newRiskManager ex_jan15)))) = [REJECT]"
  using daily_loss_limit_rejects
    [of ex_jan15_noon ex_loser defaultConfig "newRiskManager ex_jan15" ex_jan15_noon
     ex_jan15_noon ex_jan15_noon "[(ex_jan15_noon, ex_strategy ''BTCUSDT'', [])]" None]
  by (simp add: ex_defs ex_loser_def Let_def newRiskManager_def sameDay_def calendarDate_def
      split_def updateDailyPnL_def resetDailyCounters_def getDate_def)

section \<open>The tick handler\<close>

lemma closePosition_start_positions:
  "activePositions (closePosition_start symb r st) = activePositions st"
  by (simp add: closePosition_start_def split: option.splits)

text \<open>A tick for another symbol leaves the position of this symbol alone.\<close>

lemma onPriceUpdate_other:
  "sy \<noteq> symb \<Longrightarrow> map_of (activePositions (onPriceUpdate now sy price st)) symb
      = map_of (activePositions st) symb"
  by (simp add: onPriceUpdate_def Let_def closePosition_start_positions update_conv'
      split: option.splits)

text \<open>
  A tick for the symbol keeps the position and its side. The stop is either the one
  stored before, or the trailing stop of the tick's price; the second only for a
  trailing position whose fresh P and L is above 5, on a tick that triggers neither
  the stop nor the target, and only in the position's favour.
\<close>

lemma onPriceUpdate_same:
  assumes "map_of (activePositions st) symb = Some p"
  shows "\<exists>p'. map_of (activePositions (onPriceUpdate now symb price st)) symb = Some p' \<and>
     p_side p' = p_side p \<and>
     (stopLoss p' = stopLoss p \<or>
        stopLoss p' = calculateTrailingStopLoss price (p_entryPrice p) (p_side p) 3 \<and>
        isTrailingSL p \<and>
        calculatePnL (p_entryPrice p) price (p_size p) (p_leverage p) (p_side p) > 5 \<and>
        \<not> shouldTriggerStopLoss price (stopLoss p) (p_side p) \<and>
        \<not> shouldTriggerTakeProfit price (takeProfit p) (p_side p) \<and>
        (if p_side p = LONG then stopLoss p' > stopLoss p else stopLoss p' < stopLoss p))"
  using assms
  by (cases "p_side p")
     (simp_all add: onPriceUpdate_def Let_def closePosition_start_positions update_conv')

lemma tick_step:
  assumes "map_of (activePositions st) symb = Some p"
  shows "\<exists>p'. map_of (activePositions (onPriceUpdate now sy price st)) symb = Some p' \<and>
     p_side p' = p_side p \<and>
     (if p_side p = LONG then stopLoss p \<le> stopLoss p' else stopLoss p' \<le> stopLoss p)"
proof (cases "sy = symb")
  case True
  obtain p' where "map_of (activePositions (onPriceUpdate now symb price st)) symb = Some p'"
    and "p_side p' = p_side p"
    and "stopLoss p' = stopLoss p \<or>
         (if p_side p = LONG then stopLoss p' > stopLoss p else stopLoss p' < stopLoss p)"
    using onPriceUpdate_same [OF assms, of now price] by blast
  then show ?thesis using True by (intro exI [of _ p']) auto
next
  case False
  then show ?thesis using assms by (simp add: onPriceUpdate_other)
qed

lemma stopsAlong_Nil:
  "map_of (activePositions st) symb = Some p \<Longrightarrow> stopsAlong symb [] st = [stopLoss p]"
  by (simp add: stopsAlong_def storedStop_def map_filter_simps)

lemma stopsAlong_Cons:
  "map_of (activePositions st) symb = Some p \<Longrightarrow>
   stopsAlong symb ((now, sy, price) # ticks) st
     = stopLoss p # stopsAlong symb ticks (onPriceUpdate now sy price st)"
  by (simp add: stopsAlong_def storedStop_def map_filter_simps Let_def)

lemma stopsAlong_hd:
  "map_of (activePositions st) symb = Some p \<Longrightarrow>
   \<exists>rest. stopsAlong symb ticks st = stopLoss p # rest"
  by (cases ticks) (auto simp add: stopsAlong_Nil stopsAlong_Cons)

text \<open>No tick removes the position: the stream yields one stop per state.\<close>

lemma stopsAlong_length:
  "map_of (activePositions st) symb = Some p \<Longrightarrow>
   length (stopsAlong symb ticks st) = Suc (length ticks)"
proof (induction ticks arbitrary: st p)
  case Nil
  then show ?case by (simp add: stopsAlong_Nil)
next
  case (Cons t ticks)
  obtain now sy price where t: "t = (now, sy, price)" by (cases t) auto
  obtain p' where "map_of (activePositions (onPriceUpdate now sy price st)) symb = Some p'"
    using tick_step [OF Cons.prems] by blast
  then show ?case using Cons.IH Cons.prems by (simp add: t stopsAlong_Cons)
qed

lemma stopsAlong_long:
  "map_of (activePositions st) symb = Some p \<Longrightarrow> p_side p = LONG \<Longrightarrow>
   sorted_wrt (\<le>) (stopsAlong symb ticks st)"
proof (induction ticks arbitrary: st p)
  case Nil
  then show ?case by (simp add: stopsAlong_Nil)
next
  case (Cons t ticks)
  obtain now sy price where t: "t = (now, sy, price)" by (cases t) auto
  let ?st1 = "onPriceUpdate now sy price st"
  obtain p' where p': "map_of (activePositions ?st1) symb = Some p'"
    and sd: "p_side p' = LONG" and le: "stopLoss p \<le> stopLoss p'"
    using tick_step [OF Cons.prems(1), of now sy price] Cons.prems(2) by auto
  obtain rest where rest: "stopsAlong symb ticks ?st1 = stopLoss p' # rest"
    using stopsAlong_hd [OF p'] by blast
  have "sorted_wrt (\<le>) (stopLoss p' # rest)"
    using Cons.IH [OF p' sd] rest by simp
  then have "sorted_wrt (\<le>) (stopLoss p # stopLoss p' # rest)"
    using le by auto
  then show ?case using Cons.prems(1) by (simp add: t stopsAlong_Cons rest)
qed

lemma stopsAlong_short:
  "map_of (activePositions st) symb = Some p \<Longrightarrow> p_side p = SHORT \<Longrightarrow>
   sorted_wrt (\<ge>) (stopsAlong symb ticks st)"
proof (induction ticks arbitrary: st p)
  case Nil
  then show ?case by (simp add: stopsAlong_Nil)
next
  case (Cons t ticks)
  obtain now sy price where t: "t = (now, sy, price)" by (cases t) auto
  let ?st1 = "onPriceUpdate now sy price st"
  obtain p' where p': "map_of (activePositions ?st1) symb = Some p'"
    and sd: "p_side p' = SHORT" and le: "stopLoss p' \<le> stopLoss p"
    using tick_step [OF Cons.prems(1), of now sy price] Cons.prems(2) by auto
  obtain rest where rest: "stopsAlong symb ticks ?st1 = stopLoss p' # rest"
    using stopsAlong_hd [OF p'] by blast
  have "sorted_wrt (\<ge>) (stopLoss p' # rest)"
    using Cons.IH [OF p' sd] rest by simp
  then have "sorted_wrt (\<ge>) (stopLoss p # stopLoss p' # rest)"
    using le by auto
  then show ?case using Cons.prems(1) by (simp add: t stopsAlong_Cons rest)
qed

text \<open>
  Claim C5. Take a position with the trailing stop enabled and a positive entry
  price, and any stream of ticks (for this symbol or others) handled by
  \<open>onPriceUpdate\<close>. The stream yields a stored stop before the first tick and after
  every tick, and these stops never decrease for a long and never increase for a
  short. On a single tick the stop stored afterwards is the stop stored before, or
  it is the trailing stop of the tick's price, and then it is strictly higher for a
  long (strictly lower for a short) and the unrealized P and L computed on that tick
  is above 5 percent.
\<close>

theorem trailing_stop_never_loosens:
  "map_of (activePositions st) symb = Some p \<and> isTrailingSL p \<and> 0 < p_entryPrice p \<longrightarrow>
     length (stopsAlong symb ticks st) = Suc (length ticks) \<and>
     (if p_side p = LONG then sorted_wrt (\<le>) (stopsAlong symb ticks st)
      else sorted_wrt (\<ge>) (stopsAlong symb ticks st)) \<and>
     (\<exists>p'. map_of (activePositions (onPriceUpdate now symb price st)) symb = Some p' \<and>
        (stopLoss p' = stopLoss p \<or>
         stopLoss p' = calculateTrailingStopLoss price (p_entryPrice p) (p_side p) 3 \<and>
         (if p_side p = LONG then stopLoss p' > stopLoss p else stopLoss p' < stopLoss p) \<and>
         calculatePnL (p_entryPrice p) price (p_size p) (p_leverage p) (p_side p) > 5))"
proof (intro impI)
  assume h: "map_of (activePositions st) symb = Some p \<and> isTrailingSL p \<and> 0 < p_entryPrice p"
  then have m: "map_of (activePositions st) symb = Some p" by simp
  have len: "length (stopsAlong symb ticks st) = Suc (length ticks)"
    using m by (rule stopsAlong_length)
  have srt: "if p_side p = LONG then sorted_wrt (\<le>) (stopsAlong symb ticks st)
      else sorted_wrt (\<ge>) (stopsAlong symb ticks st)"
  proof (cases "p_side p")
    case LONG
    then show ?thesis using stopsAlong_long [OF m] by simp
  next
    case SHORT
    then show ?thesis using stopsAlong_short [OF m] by simp
  qed
  have one: "\<exists>p'. map_of (activePositions (onPriceUpdate now symb price st)) symb = Some p' \<and>
        (stopLoss p' = stopLoss p \<or>
         stopLoss p' = calculateTrailingStopLoss price (p_entryPrice p) (p_side p) 3 \<and>
         (if p_side p = LONG then stopLoss p' > stopLoss p else stopLoss p' < stopLoss p) \<and>
         calculatePnL (p_entryPrice p) price (p_size p) (p_leverage p) (p_side p) > 5)"
    using onPriceUpdate_same [OF m, of now price] by blast
  show "length (stopsAlong symb ticks st) = Suc (length ticks) \<and>
     (if p_side p = LONG then sorted_wrt (\<le>) (stopsAlong symb ticks st)
      else sorted_wrt (\<ge>) (stopsAlong symb ticks st)) \<and>
     (\<exists>p'. map_of (activePositions (onPriceUpdate now symb price st)) symb = Some p' \<and>
        (stopLoss p' = stopLoss p \<or>
         stopLoss p' = calculateTrailingStopLoss price (p_entryPrice p) (p_side p) 3 \<and>
         (if p_side p = LONG then stopLoss p' > stopLoss p else stopLoss p' < stopLoss p) \<and>
         calculatePnL (p_entryPrice p) price (p_size p) (p_leverage p) (p_side p) > 5))"
    using len srt one by blast
qed

theorem trailing_stop_never_loosens_witness:
  "map_of (activePositions (ex_monitored (ex_position ''BTCUSDT''))) ''BTCUSDT''
     = Some (ex_position ''BTCUSDT'') \<and>
   isTrailingSL (ex_position ''BTCUSDT'') \<and> 0 < p_entryPrice (ex_position ''BTCUSDT'') \<and>
   p_side (ex_position ''BTCUSDT'') = LONG \<and>
   stopsAlong ''BTCUSDT'' ex_ticks (ex_monitored (ex_position ''BTCUSDT''))
     = [98, 99.91, 99.91, 99.91, 100.88] \<and>
   sorted_wrt (\<le>) (stopsAlong ''BTCUSDT'' ex_ticks (ex_monitored (ex_position ''BTCUSDT''))) \<and>
   map_of (activePositions (ex_monitored (ex_short ''BTCUSDT''))) ''BTCUSDT''
     = Some (ex_short ''BTCUSDT'') \<and>
   isTrailingSL (ex_short ''BTCUSDT'') \<and> 0 < p_entryPrice (ex_short ''BTCUSDT'') \<and>
   p_side (ex_short ''BTCUSDT'') = SHORT \<and>
   stopsAlong ''BTCUSDT'' ex_ticks_down (ex_monitored (ex_short ''BTCUSDT''))
     = [102, 99.91, 99.91, 98.88] \<and>
   sorted_wrt (\<ge>) (stopsAlong ''BTCUSDT'' ex_ticks_down (ex_monitored (ex_short ''BTCUSDT'')))"
  using trailing_stop_never_loosens
      [of "ex_monitored (ex_position ''BTCUSDT'')" "''BTCUSDT''" "ex_position ''BTCUSDT''"
        ex_ticks ex_jan15_noon 103]
    trailing_stop_never_loosens
      [of "ex_monitored (ex_short ''BTCUSDT'')" "''BTCUSDT''" "ex_short ''BTCUSDT''"
        ex_ticks_down ex_jan15_noon 97]
  by (simp add: ex_defs ex_short_def ex_ticks_def ex_ticks_down_def tick_defs)

text \<open>
  Claim C6. On a tick for a monitored position at which both the stop trigger and
  the target trigger hold, \<open>onPriceUpdate\<close> issues exactly one close order, with
  reason \<open>STOP_LOSS\<close>; no close with reason \<open>TAKE_PROFIT\<close> is issued on that tick.
\<close>

theorem stop_before_target:
  "map_of (activePositions st) symb = Some p \<and>
   shouldTriggerStopLoss price (stopLoss p) (p_side p) \<and>
   shouldTriggerTakeProfit price (takeProfit p) (p_side p) \<longrightarrow>
     closeCalls (onPriceUpdate now symb price st) = closeCalls st @ [(symb, p_side p, STOP_LOSS)]"
  by (cases "p_side p")
     (simp_all add: onPriceUpdate_def Let_def closePosition_start_def update_conv')

theorem stop_before_target_witness:
  "map_of (activePositions (ex_monitored (ex_gapped ''BTCUSDT''))) ''BTCUSDT''
     = Some (ex_gapped ''BTCUSDT'') \<and>
   shouldTriggerStopLoss 104.5 (stopLoss (ex_gapped ''BTCUSDT'')) (p_side (ex_gapped ''BTCUSDT'')) \<and>
   shouldTriggerTakeProfit 104.5 (takeProfit (ex_gapped ''BTCUSDT''))
     (p_side (ex_gapped ''BTCUSDT'')) \<and>
   closeCalls (onPriceUpdate ex_jan15_noon ''BTCUSDT'' 104.5 (ex_monitored (ex_gapped ''BTCUSDT'')))
     = [(''BTCUSDT'', LONG, STOP_LOSS)]"
  using stop_before_target
    [of "ex_monitored (ex_gapped ''BTCUSDT'')" "''BTCUSDT''" "ex_gapped ''BTCUSDT''"
      "104.5" ex_jan15_noon]
  by (simp add: ex_defs ex_gapped_def shouldTriggerStopLoss_def shouldTriggerTakeProfit_def
      startMonitoring_def emptyExec_def Let_def)

section \<open>Stop and target prices\<close>

text \<open>
  Claim C7. For every entry price \<open>e > 0\<close> and percentage \<open>p\<close> strictly between 0 and
  100, the stop price of a long is \<open>e * (1 - p / 100)\<close> and its target price is
  \<open>e * (1 + p / 100)\<close>; for a short the two signs are exchanged. At entry 100, long,
  stop 2 percent and target 4 percent the stop price is 98 and the target price is
  104; a tick at 97.50 satisfies the stop trigger and a tick at 104.50 satisfies the
  target trigger.
\<close>

theorem stop_and_target_prices:
  "(0 < e \<and> 0 < p \<and> p < 100 \<longrightarrow>
      calculateStopLoss e LONG p = e * (1 - p / 100) \<and>
      calculateTakeProfit e LONG p = e * (1 + p / 100) \<and>
      calculateStopLoss e SHORT p = e * (1 + p / 100) \<and>
      calculateTakeProfit e SHORT p = e * (1 - p / 100)) \<and>
   calculateStopLoss 100 LONG 2 = 98 \<and>
   calculateTakeProfit 100 LONG 4 = 104 \<and>
   shouldTriggerStopLoss 97.50 (calculateStopLoss 100 LONG 2) LONG \<and>
   shouldTriggerTakeProfit 104.50 (calculateTakeProfit 100 LONG 4) LONG"
  by (simp add: calculateStopLoss_def calculateTakeProfit_def
      shouldTriggerStopLoss_def shouldTriggerTakeProfit_def)

theorem stop_and_target_prices_witness:
  "(0::real) < 250 \<and> (0::real) < 8 \<and> (8::real) < 100 \<and>
   calculateStopLoss 250 LONG 8 = 230 \<and>
   calculateTakeProfit 250 LONG 8 = 270 \<and>
   calculateStopLoss 250 SHORT 8 = 270 \<and>
   calculateTakeProfit 250 SHORT 8 = 230"
  using stop_and_target_prices [of 250 8] by simp

section \<open>The cycle and its log\<close>

text \<open>No exception leaves \<open>runCycle\<close>.\<close>

lemma runCycle_contains_failure: "fst (runCycle cfg env w st) = None"
  by (simp add: runCycle_def split: prod.splits option.splits)

text \<open>A collector that throws ends the cycle with the state it started from.\<close>

lemma runCycle_stage1_throws:
  "agent1Result w = Inl e \<Longrightarrow> runCycle cfg env w st = (None, st)"
  by (simp add: runCycle_def runCycle_body_def)

text \<open>
  The third stage logs its own failure: with a wallet of 1000 and an executor that
  throws, the cycle ends with three entries, the last of status \<open>ERROR\<close> with the
  message of the exception.
\<close>

lemma runCycle_stage3_failure_logged:
  "map (\<lambda>m. (agent m, status m, errorText m))
     (conversationHistory (snd (runCycle defaultConfig None
        ((ex_world (Inr \<lparr> initialStrategy = ex_strategy ''BTCUSDT'' \<rparr>))
           \<lparr> agent3Run := (\<lambda>s ex. (Inl (Error ''order rejected''), ex)) \<rparr>) ex_sys)))
   = [(COLLECTOR, SUCCESS, None), (OPTIMIZER, SUCCESS, None),
      (EXECUTOR, ERROR, Some ''order rejected'')]"
  by (simp add: runCycle_def runCycle_body_def ex_world_def ex_sys_def ex_defs risk_defs
      agent2_execute_def logConversation_def saveConversation_def getActivePositions_def
      emptyExec_def)

text \<open>
  Claim C8, evaluated where the code departs from it. The collector throws
  (\<open>oracle unavailable\<close>) in a cycle of an orchestrator that has logged nothing.
  The exception does not leave \<open>runCycle\<close>, but the cycle appends no entry: the
  in-memory conversation history and the persisted one are as empty as before, so
  the failed first stage is not visible in the log.
\<close>

theorem failed_stage1_leaves_no_entry:
  "runCycle defaultConfig None (ex_world (Inl (Error ''oracle unavailable''))) ex_sys
     = (None, ex_sys) \<and>
   conversationHistory (snd (runCycle defaultConfig None
      (ex_world (Inl (Error ''oracle unavailable''))) ex_sys)) = [] \<and>
   persisted (snd (runCycle defaultConfig None
      (ex_world (Inl (Error ''oracle unavailable''))) ex_sys)) = []"
  by (simp add: runCycle_def runCycle_body_def ex_world_def ex_sys_def)

section \<open>Reconciliation with the exchange\<close>

text \<open>The reconciliation pass never writes the map of active positions.\<close>

lemma checkPositionStatus_keeps_positions:
  "activePositions (checkPositionStatus symb result st) = activePositions st"
  by (simp add: checkPositionStatus_def stopMonitoring_def Let_def
      split: sum.splits option.splits)

text \<open>It issues no close order.\<close>

lemma checkPositionStatus_no_close:
  "closeCalls (checkPositionStatus symb result st) = closeCalls st"
  by (simp add: checkPositionStatus_def stopMonitoring_def Let_def
      split: sum.splits option.splits)

text \<open>When the symbol is absent from the exchange's list, the monitor is torn down.\<close>

lemma checkPositionStatus_tears_down:
  "find (\<lambda>p. ap_symbol p = symb) positions = None \<Longrightarrow>
   map_of (activeMonitoring (checkPositionStatus symb (Inr positions) st)) symb = None \<and>
   map_of (subscriptions (checkPositionStatus symb (Inr positions) st)) (channelOf symb) = None"
  by (simp add: checkPositionStatus_def stopMonitoring_def Let_def delete_conv'
      split: option.splits)

text \<open>The confirmed close, by contrast, removes the position from the map.\<close>

lemma closePosition_resume_removes:
  "map_of (activePositions (fst (closePosition_resume now symb position (Inr ()) s))) symb = None"
  by (simp add: closePosition_resume_def Let_def delete_conv')

text \<open>
  Claim C9, evaluated where the code departs from it. An executor holds and
  monitors one position, for \<open>BTCUSDT\<close>, under the interval handle 0. A
  reconciliation pass reads a position list from the exchange that does not contain
  \<open>BTCUSDT\<close>. The pass issues no close order and removes the interval timer, the
  monitoring entry and the price subscription, but the position stays in the map of
  active positions, and \<open>getActivePositions\<close> returns it as before.
\<close>

theorem reconciliation_keeps_position:
  "activeMonitoring (ex_monitored (ex_position ''BTCUSDT'')) = [(''BTCUSDT'', 0)] \<and>
   getActivePositions (ex_monitored (ex_position ''BTCUSDT'')) = [ex_position ''BTCUSDT''] \<and>
   checkPositionStatus ''BTCUSDT'' (Inr [\<lparr> ap_symbol = ''ETHUSDT'', ap_positionAmt = 1 \<rparr>])
       (ex_monitored (ex_position ''BTCUSDT''))
     = \<lparr> activeMonitoring = [], activePositions = [(''BTCUSDT'', ex_position ''BTCUSDT'')],
         subscriptions = [], intervals = [], nextHandle = 1, closeCalls = [] \<rparr> \<and>
   getActivePositions
     (checkPositionStatus ''BTCUSDT'' (Inr [\<lparr> ap_symbol = ''ETHUSDT'', ap_positionAmt = 1 \<rparr>])
        (ex_monitored (ex_position ''BTCUSDT'')))
     = [ex_position ''BTCUSDT'']"
  by (simp add: ex_monitored_def ex_position_def checkPositionStatus_def stopMonitoring_def
      startMonitoring_def emptyExec_def getActivePositions_def channelOf_def Let_def)

section \<open>The order quantity\<close>

lemma Math_round_of_int: "Math_round (of_int k) = of_int k"
proof -
  have "\<lfloor>(of_int k :: real) + 1 / 2\<rfloor> = k" by linarith
  then show ?thesis by (simp add: Math_round_def)
qed

text \<open>
  The quantity in closed form: the number of whole steps in the raw quantity, at
  least one, times the step.
\<close>

lemma calculateQuantity_eq:
  "calculateQuantity s =
     (if \<lfloor>positionSize s / entryPrice s * 1000\<rfloor> < 1 then 1 / 1000
      else of_int \<lfloor>positionSize s / entryPrice s * 1000\<rfloor> / 1000)"
proof -
  let ?k = "\<lfloor>positionSize s / entryPrice s * 1000\<rfloor>"
  have a: "Math_floor (positionSize s / entryPrice s / 0.001) = of_int ?k"
    by (simp add: Math_floor_def)
  have b: "(of_int ?k * 0.001 < (0.001::real)) = (?k < 1)"
    by simp
  have c: "Math_round (of_int ?k * 0.001 * 10 ^ 3) = of_int ?k"
    using Math_round_of_int [of ?k] by simp
  have d: "Math_round (0.001 * 10 ^ 3) = 1"
    using Math_round_of_int [of 1] by simp
  show ?thesis
    unfolding calculateQuantity_def Let_def if_cancel a b
    using c d by (simp del: of_int_less_1_iff)
qed

text \<open>
  Claim C10. For every strategy with a positive entry price, the order quantity is
  at least 0.001, is a whole multiple of the step 0.001, and is unchanged by
  rounding to three decimal places. When the size divided by the entry price is
  below 0.001, the quantity is 0.001, and the notional of the order (quantity times
  entry price) is strictly above the requested size.
\<close>

theorem quantity_minimum_and_step:
  "0 < entryPrice s \<longrightarrow>
     calculateQuantity s \<ge> 0.001 \<and>
     (\<exists>k::int. calculateQuantity s = of_int k * 0.001) \<and>
     Math_round (calculateQuantity s * 10 ^ 3) / 10 ^ 3 = calculateQuantity s \<and>
     (positionSize s / entryPrice s < 0.001 \<longrightarrow>
        calculateQuantity s = 0.001 \<and> calculateQuantity s * entryPrice s > positionSize s)"
proof (intro impI)
  assume e: "0 < entryPrice s"
  let ?k = "\<lfloor>positionSize s / entryPrice s * 1000\<rfloor>"
  let ?m = "if ?k < 1 then 1 else ?k"
  have q: "calculateQuantity s = of_int ?m * 0.001"
    by (simp add: calculateQuantity_eq)
  have m1: "1 \<le> ?m" by simp
  have ge: "calculateQuantity s \<ge> 0.001"
    unfolding q using m1 by (simp del: of_int_less_1_iff)
  have mult: "\<exists>k::int. calculateQuantity s = of_int k * 0.001"
    using q by blast
  have rnd: "Math_round (calculateQuantity s * 10 ^ 3) / 10 ^ 3 = calculateQuantity s"
    unfolding q using Math_round_of_int [of ?m] by simp
  have small: "positionSize s / entryPrice s < 0.001 \<longrightarrow>
        calculateQuantity s = 0.001 \<and> calculateQuantity s * entryPrice s > positionSize s"
  proof
    assume lt: "positionSize s / entryPrice s < 0.001"
    then have "positionSize s / entryPrice s * 1000 < 1" by simp
    then have k: "?k < 1" by linarith
    have v: "calculateQuantity s = 0.001" using k by (simp add: calculateQuantity_eq)
    have "positionSize s < 0.001 * entryPrice s"
      using lt e by (simp add: pos_divide_less_eq)
    then have "positionSize s < calculateQuantity s * entryPrice s"
      by (simp only: v)
    then show "calculateQuantity s = 0.001 \<and> calculateQuantity s * entryPrice s > positionSize s"
      using v by blast
  qed
  show "calculateQuantity s \<ge> 0.001 \<and>
     (\<exists>k::int. calculateQuantity s = of_int k * 0.001) \<and>
     Math_round (calculateQuantity s * 10 ^ 3) / 10 ^ 3 = calculateQuantity s \<and>
     (positionSize s / entryPrice s < 0.001 \<longrightarrow>
        calculateQuantity s = 0.001 \<and> calculateQuantity s * entryPrice s > positionSize s)"
    using ge mult rnd small by blast
qed

theorem quantity_minimum_and_step_witness:
  "0 < entryPrice ex_btc \<and> positionSize ex_btc / entryPrice ex_btc < 0.001 \<and>
   calculateQuantity ex_btc = 0.001 \<and>
   calculateQuantity ex_btc * entryPrice ex_btc = 107.5 \<and>
   calculateQuantity ex_btc * entryPrice ex_btc > positionSize ex_btc"
  using quantity_minimum_and_step [of ex_btc]
  by (simp add: ex_btc_def ex_strategy_def)

end
